theory Spec2Isabelle
  imports Main "HOL-Library.Word"
begin

section \<open>The files router of open-webui: data model\<close>

text \<open>
  The module \<^verbatim>\<open>backend/open_webui/apps/webui/routers/files.py\<close> is a set of HTTP
  handlers over three collaborators: the metadata registry \<^verbatim>\<open>Files\<close>, the blob
  storage \<^verbatim>\<open>Storage\<close> and the content processor \<^verbatim>\<open>process_file\<close>. The
  handlers are embedded as state-passing functions; a raised exception is the left
  injection of the result.
\<close>

type_synonym bytes = "8 word list"

text \<open>JSON-like values held in the \<^verbatim>\<open>meta\<close> and \<^verbatim>\<open>data\<close> dictionaries.\<close>

datatype jval = JNone | JStr string | JInt int

text \<open>
  Exceptions. \<^verbatim>\<open>HTTPException\<close> carries a status code and a \<^verbatim>\<open>detail\<close>
  attribute; every other exception is a class name with its \<^verbatim>\<open>str()\<close>. Both are
  subclasses of \<^verbatim>\<open>Exception\<close>, so \<^verbatim>\<open>except Exception\<close> catches both.
\<close>

datatype exn = HTTPException nat string | PyError string string

text \<open>The argument of \<^verbatim>\<open>ERROR_MESSAGES.DEFAULT\<close>: a string or an exception object.\<close>

datatype err_arg = Err_str string | Err_exn exn

text \<open>
  The user object injected by \<^verbatim>\<open>get_verified_user\<close> or \<^verbatim>\<open>get_admin_user\<close>;
  \<^verbatim>\<open>uid\<close> is its \<^verbatim>\<open>id\<close> attribute.
\<close>

record UserModel =
  uid :: string
  role :: string

text \<open>
  \<^verbatim>\<open>UploadFile\<close>: the declared filename (optional in FastAPI), the declared content
  type and the byte stream \<^verbatim>\<open>file.file\<close>.
\<close>

record UploadFile =
  file_filename :: "string option"
  file_content_type :: "string option"
  file_file :: bytes

text \<open>\<^verbatim>\<open>FileForm\<close>, built from \<^verbatim>\<open>file_form_data\<close> (lines 92-101).\<close>

record FileForm =
  form_id :: string
  form_filename :: string
  form_path :: string
  form_meta :: "(string \<times> jval) list"

text \<open>
  \<^verbatim>\<open>FileModel\<close>, with the attributes this module reads: \<^verbatim>\<open>id\<close> (here
  \<^verbatim>\<open>fid\<close>), \<^verbatim>\<open>user_id\<close>, \<^verbatim>\<open>filename\<close>, \<^verbatim>\<open>path\<close>, \<^verbatim>\<open>meta\<close>,
  \<^verbatim>\<open>data\<close> and \<^verbatim>\<open>content\<close>. The module calls \<^verbatim>\<open>.get\<close> on the last
  three; each may be \<^verbatim>\<open>None\<close> instead of a dictionary, and the call then raises.
\<close>

record FileModel =
  fid :: string
  user_id :: string
  filename :: string
  path :: "string option"
  meta :: "(string \<times> jval) list option"
  data :: "(string \<times> jval) list option"
  content :: "(string \<times> jval) list option"

text \<open>
  Modelled from the spec: \<^verbatim>\<open>FileModelResponse\<close> is declared in
  \<^verbatim>\<open>apps/webui/models/files.py\<close>, which is not part of the sources; the spec gives
  the upload response as the record plus an optional \<^verbatim>\<open>error\<close>.
\<close>

record FileModelResponse =
  dumped :: FileModel
  error :: "string option"

record ProcessFileForm =
  pf_file_id :: string
  pf_content :: "string option"

datatype response =
    Return_item FileModelResponse
  | Return_files "FileModel list"
  | Return_file FileModel
  | Return_message string
  | Return_content jval
  | File_sent string "(string \<times> string) list"
  | Stream_sent jval string "(string \<times> string) list"

text \<open>The calls a handler makes on its collaborators, in order.\<close>

datatype call =
    Call_uuid4
  | Call_Storage_upload_file bytes string
  | Call_Storage_get_file "string option"
  | Call_Storage_delete_file string
  | Call_Storage_delete_all_files
  | Call_Files_insert_new_file string FileForm
  | Call_Files_get_file_by_id string
  | Call_Files_get_files
  | Call_Files_get_files_by_user_id string
  | Call_Files_delete_file_by_id string
  | Call_Files_delete_all_files
  | Call_process_file ProcessFileForm

text \<open>
  The collaborators are imported from other modules, so the handlers take them as
  parameters: each is a function on the state \<open>'w\<close> of the outside world that
  returns its value or the exception it raises. \<^verbatim>\<open>uuid_uuid4\<close> is
  \<^verbatim>\<open>str(uuid.uuid4())\<close>, a draw from the random source of the world.
  \<^verbatim>\<open>is_file\<close> is \<^verbatim>\<open>Path(p).is_file()\<close>; \<^verbatim>\<open>DEFAULT\<close> and
  \<^verbatim>\<open>NOT_FOUND\<close> are the two members of \<^verbatim>\<open>ERROR_MESSAGES\<close> that the module
  uses. \<^verbatim>\<open>FileResponse(path, headers)\<close> and
  \<^verbatim>\<open>StreamingResponse(body, media_type, headers)\<close> build the response object or
  raise: they encode the header values as latin-1, which fails for a name with a
  character outside it. A character of the model has eight bits, so the two
  constructors are parameters that may raise at any argument.
\<close>

record 'w collaborators =
  uuid_uuid4 :: "'w \<Rightarrow> string \<times> 'w"
  Storage_upload_file :: "bytes \<Rightarrow> string \<Rightarrow> 'w \<Rightarrow> (exn + bytes \<times> string) \<times> 'w"
  Storage_get_file :: "string option \<Rightarrow> 'w \<Rightarrow> (exn + string) \<times> 'w"
  Storage_delete_file :: "string \<Rightarrow> 'w \<Rightarrow> (exn + unit) \<times> 'w"
  Storage_delete_all_files :: "'w \<Rightarrow> (exn + unit) \<times> 'w"
  Files_insert_new_file :: "string \<Rightarrow> FileForm \<Rightarrow> 'w \<Rightarrow> (exn + FileModel option) \<times> 'w"
  Files_get_file_by_id :: "string \<Rightarrow> 'w \<Rightarrow> (exn + FileModel option) \<times> 'w"
  Files_get_files :: "'w \<Rightarrow> (exn + FileModel list) \<times> 'w"
  Files_get_files_by_user_id :: "string \<Rightarrow> 'w \<Rightarrow> (exn + FileModel list) \<times> 'w"
  Files_delete_file_by_id :: "string \<Rightarrow> 'w \<Rightarrow> (exn + bool) \<times> 'w"
  Files_delete_all_files :: "'w \<Rightarrow> (exn + bool) \<times> 'w"
  process_file :: "ProcessFileForm \<Rightarrow> 'w \<Rightarrow> (exn + unit) \<times> 'w"
  is_file :: "string \<Rightarrow> 'w \<Rightarrow> bool"
  FileResponse :: "string \<Rightarrow> (string \<times> string) list \<Rightarrow> exn + response"
  StreamingResponse :: "jval \<Rightarrow> string \<Rightarrow> (string \<times> string) list \<Rightarrow> exn + response"
  DEFAULT :: "err_arg \<Rightarrow> string"
  NOT_FOUND :: string

text \<open>The state a handler runs in: the outside world and the calls made so far.\<close>

record 'w server =
  world :: 'w
  calls :: "call list"

definition invoke :: "call \<Rightarrow> ('w \<Rightarrow> 'a \<times> 'w) \<Rightarrow> 'w server \<Rightarrow> 'a \<times> 'w server" where
  "invoke c f s =
     (case f (world s) of (r, w') \<Rightarrow> (r, \<lparr>world = w', calls = calls s @ [c]\<rparr>))"

text \<open>
  The status the client sees: 200 for a returned value, the code of a raised
  \<^verbatim>\<open>HTTPException\<close>, and 500 for any other exception that leaves the handler.
\<close>

fun status_code :: "exn + response \<Rightarrow> nat" where
  "status_code (Inr v) = 200"
| "status_code (Inl (HTTPException c d)) = c"
| "status_code (Inl (PyError c m)) = 500"

definition HTTP_400_BAD_REQUEST :: nat where "HTTP_400_BAD_REQUEST = 400"
definition HTTP_404_NOT_FOUND :: nat where "HTTP_404_NOT_FOUND = 404"
definition HTTP_500_INTERNAL_SERVER_ERROR :: nat where "HTTP_500_INTERNAL_SERVER_ERROR = 500"

section \<open>Python primitives\<close>

text \<open>\<^verbatim>\<open>p.rfind(c)\<close>: the index of the last occurrence of \<open>c\<close>, or \<open>-1\<close>.\<close>

primrec rfind :: "char \<Rightarrow> string \<Rightarrow> int" where
  "rfind c [] = - 1"
| "rfind c (x # xs) =
     (if 0 \<le> rfind c xs then rfind c xs + 1 else if x = c then 0 else - 1)"

text \<open>
  \<^verbatim>\<open>os.path.basename\<close> of \<^verbatim>\<open>posixpath\<close>:
  \<^verbatim>\<open>i = p.rfind('/') + 1; return p[i:]\<close>.
\<close>

definition basename :: "string \<Rightarrow> string" where
  "basename p = drop (nat (rfind CHR ''/'' p + 1)) p"

definition quoted :: "string \<Rightarrow> string" where
  "quoted s = CHR 0x27 # s @ [CHR 0x27]"

text \<open>The \<^verbatim>\<open>AttributeError\<close> of reading attribute \<open>a\<close> of \<^verbatim>\<open>None\<close>.\<close>

definition none_has_no_attribute :: "string \<Rightarrow> exn" where
  "none_has_no_attribute a =
     PyError ''AttributeError'' (quoted ''NoneType'' @ '' object has no attribute '' @ quoted a)"

text \<open>Decimal digits of a natural number, and \<^verbatim>\<open>str()\<close> of a value.\<close>

fun digits :: "nat \<Rightarrow> string" where
  "digits n =
     (if n < 10 then [char_of (48 + n)]
      else digits (n div 10) @ [char_of (48 + n mod 10)])"

definition str_int :: "int \<Rightarrow> string" where
  "str_int i = (if i < 0 then CHR ''-'' # digits (nat (- i)) else digits (nat i))"

fun py_str :: "jval \<Rightarrow> string" where
  "py_str JNone = ''None''"
| "py_str (JStr s) = s"
| "py_str (JInt i) = str_int i"

text \<open>\<^verbatim>\<open>d.get(k, default)\<close> on a dictionary.\<close>

definition dict_get :: "(string \<times> jval) list \<Rightarrow> string \<Rightarrow> jval \<Rightarrow> jval" where
  "dict_get d k dflt = (case map_of d k of Some v \<Rightarrow> v | None \<Rightarrow> dflt)"

text \<open>
  \<^verbatim>\<open>x.get(k, default)\<close> where \<open>x\<close> is a dictionary or \<^verbatim>\<open>None\<close>: on
  \<^verbatim>\<open>None\<close> the attribute \<^verbatim>\<open>get\<close> is missing.
\<close>

definition attr_get :: "(string \<times> jval) list option \<Rightarrow> string \<Rightarrow> jval \<Rightarrow> exn + jval" where
  "attr_get x k dflt =
     (case x of
        None \<Rightarrow> Inl (none_has_no_attribute ''get'')
      | Some d \<Rightarrow> Inr (dict_get d k dflt))"

section \<open>Upload File\<close>

text \<open>
  Lines 135-143: the message of the processing failure
  (\<^verbatim>\<open>str(e.detail) if hasattr(e, "detail") else str(e)\<close>) is attached to the dump
  of \<^verbatim>\<open>file_item\<close>. Line 129 reads \<^verbatim>\<open>file_item.id\<close> first, which raises when
  \<^verbatim>\<open>file_item\<close> is \<^verbatim>\<open>None\<close>.
\<close>

fun error_message :: "exn \<Rightarrow> string" where
  "error_message (HTTPException c d) = d"
| "error_message (PyError c m) = m"

definition process_failed :: "exn \<Rightarrow> FileModel option \<Rightarrow> exn + FileModelResponse option" where
  "process_failed process_error file_item =
     (case file_item of
        None \<Rightarrow> Inl (none_has_no_attribute ''id'')
      | Some fi \<Rightarrow> Inr (Some \<lparr>dumped = fi, error = Some (error_message process_error)\<rparr>))"

text \<open>Lines 145-153: return \<^verbatim>\<open>file_item\<close> if it is truthy, else raise 400.\<close>

definition upload_result :: "'w collaborators \<Rightarrow> exn + FileModelResponse option \<Rightarrow> exn + response" where
  "upload_result E r =
     (case r of
        Inl e \<Rightarrow> Inl e
      | Inr (Some file_item) \<Rightarrow> Inr (Return_item file_item)
      | Inr None \<Rightarrow>
          Inl (HTTPException HTTP_400_BAD_REQUEST (DEFAULT E (Err_str ''Error uploading file''))))"

text \<open>The metadata dictionary of lines 96-100.\<close>

definition upload_meta :: "string \<Rightarrow> string option \<Rightarrow> bytes \<Rightarrow> (string \<times> jval) list" where
  "upload_meta name ct contents =
     [(''name'', JStr name),
      (''content_type'', (case ct of None \<Rightarrow> JNone | Some c \<Rightarrow> JStr c)),
      (''size'', JInt (int (length contents)))]"

text \<open>
  Lines 56-153, the body of the outer \<^verbatim>\<open>try\<close>. The argument \<open>uuid4\<close> is the value
  of \<^verbatim>\<open>str(uuid.uuid4())\<close>. An exception raised in the handler of an inner
  \<^verbatim>\<open>try\<close> leaves the body, as does \<^verbatim>\<open>os.path.basename(None)\<close>. When
  \<^verbatim>\<open>insert_new_file\<close> returns \<^verbatim>\<open>None\<close>, line 109 raises inside the
  \<^verbatim>\<open>try\<close> of line 104; when \<^verbatim>\<open>get_file_by_id\<close> returns \<^verbatim>\<open>None\<close>, line
  124 raises inside the \<^verbatim>\<open>try\<close> of line 119 after \<^verbatim>\<open>file_item\<close> was rebound.
\<close>

definition upload_file_body ::
  "'w collaborators \<Rightarrow> string \<Rightarrow> UploadFile \<Rightarrow> UserModel \<Rightarrow> 'w server
     \<Rightarrow> (exn + response) \<times> 'w server" where
  "upload_file_body E uuid4 file user s =
     (case file_filename file of
        None \<Rightarrow>
          (Inl (PyError ''TypeError''
                  ''expected str, bytes or os.PathLike object, not NoneType''), s)
      | Some unsanitized_filename \<Rightarrow>
          (let name = basename unsanitized_filename;
               filename = uuid4 @ ''_'' @ name
           in case invoke (Call_Storage_upload_file (file_file file) filename)
                     (Storage_upload_file E (file_file file) filename) s of
                (Inl storage_error, s1) \<Rightarrow>
                  (Inl (HTTPException HTTP_500_INTERNAL_SERVER_ERROR
                          (DEFAULT E (Err_str ''Storage upload failed''))), s1)
              | (Inr (contents, file_path), s1) \<Rightarrow>
                  (let file_form_data =
                         \<lparr>form_id = uuid4, form_filename = name, form_path = file_path,
                          form_meta = upload_meta name (file_content_type file) contents\<rparr>
                   in case invoke (Call_Files_insert_new_file (uid user) file_form_data)
                             (Files_insert_new_file E (uid user) file_form_data) s1 of
                        (Inl db_error, s2) \<Rightarrow>
                          (Inl (HTTPException HTTP_500_INTERNAL_SERVER_ERROR
                                  (DEFAULT E (Err_str ''Database record creation failed''))), s2)
                      | (Inr None, s2) \<Rightarrow>
                          (Inl (HTTPException HTTP_500_INTERNAL_SERVER_ERROR
                                  (DEFAULT E (Err_str ''Database record creation failed''))), s2)
                      | (Inr (Some file_item), s2) \<Rightarrow>
                          (case invoke (Call_process_file \<lparr>pf_file_id = uuid4, pf_content = None\<rparr>)
                                  (process_file E \<lparr>pf_file_id = uuid4, pf_content = None\<rparr>) s2 of
                             (Inl process_error, s3) \<Rightarrow>
                               (upload_result E (process_failed process_error (Some file_item)), s3)
                           | (Inr u, s3) \<Rightarrow>
                               (case invoke (Call_Files_get_file_by_id uuid4)
                                       (Files_get_file_by_id E uuid4) s3 of
                                  (Inl process_error, s4) \<Rightarrow>
                                    (upload_result E
                                       (process_failed process_error (Some file_item)), s4)
                                | (Inr None, s4) \<Rightarrow>
                                    (upload_result E
                                       (process_failed (none_has_no_attribute ''model_dump'') None),
                                     s4)
                                | (Inr (Some processed), s4) \<Rightarrow>
                                    (upload_result E
                                       (Inr (Some \<lparr>dumped = processed, error = None\<rparr>)), s4))))))"

text \<open>
  Lines 55 and 155-174: the outer \<^verbatim>\<open>except Exception\<close> catches whatever left the
  body, the \<^verbatim>\<open>HTTPException\<close>s raised there included, and raises status 400.
\<close>

definition upload_file ::
  "'w collaborators \<Rightarrow> string \<Rightarrow> UploadFile \<Rightarrow> UserModel \<Rightarrow> 'w server
     \<Rightarrow> (exn + response) \<times> 'w server" where
  "upload_file E uuid4 file user s =
     (case upload_file_body E uuid4 file user s of
        (Inl e, s') \<Rightarrow> (Inl (HTTPException HTTP_400_BAD_REQUEST (DEFAULT E (Err_exn e))), s')
      | (Inr v, s') \<Rightarrow> (Inr v, s'))"


section \<open>List Files, Delete All Files\<close>

definition returning :: "('a \<Rightarrow> response) \<Rightarrow> (exn + 'a) \<times> 'w server \<Rightarrow> (exn + response) \<times> 'w server" where
  "returning k r = (case r of (Inl e, s') \<Rightarrow> (Inl e, s') | (Inr v, s') \<Rightarrow> (Inr (k v), s'))"

text \<open>Lines 182-188.\<close>

definition list_files :: "'w collaborators \<Rightarrow> UserModel \<Rightarrow> 'w server \<Rightarrow> (exn + response) \<times> 'w server" where
  "list_files E user s =
     (if role user = ''admin''
      then returning Return_files (invoke Call_Files_get_files (Files_get_files E) s)
      else returning Return_files
             (invoke (Call_Files_get_files_by_user_id (uid user))
                (Files_get_files_by_user_id E (uid user)) s))"

text \<open>
  Lines 196-214. The user comes from \<^verbatim>\<open>get_admin_user\<close> and is not read by the
  body.
\<close>

definition delete_all_files :: "'w collaborators \<Rightarrow> UserModel \<Rightarrow> 'w server \<Rightarrow> (exn + response) \<times> 'w server" where
  "delete_all_files E user s =
     (case invoke Call_Files_delete_all_files (Files_delete_all_files E) s of
        (Inl e, s1) \<Rightarrow> (Inl e, s1)
      | (Inr result, s1) \<Rightarrow>
          (if result
           then (case invoke Call_Storage_delete_all_files (Storage_delete_all_files E) s1 of
                   (Inl e, s2) \<Rightarrow>
                     (Inl (HTTPException HTTP_400_BAD_REQUEST
                             (DEFAULT E (Err_str ''Error deleting files''))), s2)
                 | (Inr u, s2) \<Rightarrow> (Inr (Return_message ''All files deleted successfully''), s2))
           else (Inl (HTTPException HTTP_400_BAD_REQUEST
                        (DEFAULT E (Err_str ''Error deleting files''))), s1)))"

section \<open>Handlers addressed by identifier\<close>

definition not_found :: "'w collaborators \<Rightarrow> exn + response" where
  "not_found E = Inl (HTTPException HTTP_404_NOT_FOUND (NOT_FOUND E))"

text \<open>
  Every handler below starts with \<^verbatim>\<open>file = Files.get_file_by_id(id)\<close> and the test
  \<^verbatim>\<open>file and (file.user_id == user.id or user.role == "admin")\<close>, and ends with
  the 404 of its \<^verbatim>\<open>else\<close> branch. \<open>with_file\<close> is that frame; \<open>k\<close> is the
  branch taken when the test holds.
\<close>

definition with_file ::
  "'w collaborators \<Rightarrow> string \<Rightarrow> UserModel
     \<Rightarrow> (FileModel \<Rightarrow> 'w server \<Rightarrow> (exn + response) \<times> 'w server)
     \<Rightarrow> 'w server \<Rightarrow> (exn + response) \<times> 'w server" where
  "with_file E ident user k s =
     (case invoke (Call_Files_get_file_by_id ident) (Files_get_file_by_id E ident) s of
        (Inl e, s1) \<Rightarrow> (Inl e, s1)
      | (Inr None, s1) \<Rightarrow> (not_found E, s1)
      | (Inr (Some file), s1) \<Rightarrow>
          (if user_id file = uid user \<or> role user = ''admin''
           then k file s1
           else (not_found E, s1)))"

text \<open>Lines 222-232.\<close>

definition get_file_by_id ::
  "'w collaborators \<Rightarrow> string \<Rightarrow> UserModel \<Rightarrow> 'w server \<Rightarrow> (exn + response) \<times> 'w server" where
  "get_file_by_id E ident user s =
     with_file E ident user (\<lambda>file s1. (Inr (Return_file file), s1)) s"

text \<open>
  Lines 245 and 276: \<^verbatim>\<open>return {"content": file.data.get("content", "")}\<close>. Neither
  line is inside a \<^verbatim>\<open>try\<close>, so the \<^verbatim>\<open>AttributeError\<close> of a \<^verbatim>\<open>data\<close>
  that is \<^verbatim>\<open>None\<close> leaves the handler.
\<close>

definition return_data_content :: "FileModel \<Rightarrow> exn + response" where
  "return_data_content file =
     (case attr_get (data file) ''content'' (JStr '''') of
        Inl e \<Rightarrow> Inl e
      | Inr c \<Rightarrow> Inr (Return_content c))"

text \<open>Lines 240-250.\<close>

definition get_file_data_content_by_id ::
  "'w collaborators \<Rightarrow> string \<Rightarrow> UserModel \<Rightarrow> 'w server \<Rightarrow> (exn + response) \<times> 'w server" where
  "get_file_data_content_by_id E ident user s =
     with_file E ident user (\<lambda>file s1. (return_data_content file, s1)) s"

text \<open>
  Lines 262-281. \<^verbatim>\<open>file\<close> is rebound only when both calls of the \<^verbatim>\<open>try\<close>
  return; line 276 is outside the \<^verbatim>\<open>try\<close>, so reading \<^verbatim>\<open>data\<close> of a
  \<^verbatim>\<open>None\<close> leaves the handler.
\<close>

definition update_file_data_content_by_id ::
  "'w collaborators \<Rightarrow> string \<Rightarrow> string \<Rightarrow> UserModel \<Rightarrow> 'w server
     \<Rightarrow> (exn + response) \<times> 'w server" where
  "update_file_data_content_by_id E ident form_content user s =
     with_file E ident user
       (\<lambda>file s1.
          case invoke (Call_process_file \<lparr>pf_file_id = ident, pf_content = Some form_content\<rparr>)
                 (process_file E \<lparr>pf_file_id = ident, pf_content = Some form_content\<rparr>) s1 of
            (Inl e, s2) \<Rightarrow> (return_data_content file, s2)
          | (Inr u, s2) \<Rightarrow>
              (case invoke (Call_Files_get_file_by_id ident) (Files_get_file_by_id E ident) s2 of
                 (Inl e, s3) \<Rightarrow> (return_data_content file, s3)
               | (Inr None, s3) \<Rightarrow> (Inl (none_has_no_attribute ''data''), s3)
               | (Inr (Some file'), s3) \<Rightarrow> (return_data_content file', s3))) s"

text \<open>
  The header of lines 300-302 and 367-369:
  \<^verbatim>\<open>f'attachment; filename="{file.meta.get("name", file.filename)}"'\<close>. It raises
  when \<^verbatim>\<open>meta\<close> is \<^verbatim>\<open>None\<close>.
\<close>

definition attachment_headers :: "FileModel \<Rightarrow> exn + (string \<times> string) list" where
  "attachment_headers file =
     (case attr_get (meta file) ''name'' (JStr (filename file)) of
        Inl e \<Rightarrow> Inl e
      | Inr name \<Rightarrow>
          Inr [(''Content-Disposition'',
                ''attachment; filename='' @ [CHR 0x22] @ py_str name @ [CHR 0x22])])"

text \<open>
  Lines 294-308, the body of the \<^verbatim>\<open>try\<close> of the first
  \<^verbatim>\<open>get_file_content_by_id\<close> (\<^verbatim>\<open>GET /{id}/content\<close>), and lines 328-339 for the
  HTML variant, which sends no headers. When the path is an existing file, the headers
  are built and then \<^verbatim>\<open>FileResponse\<close> is called; either may raise.
\<close>

definition file_response_body ::
  "'w collaborators \<Rightarrow> exn + (string \<times> string) list \<Rightarrow> FileModel \<Rightarrow> 'w server
     \<Rightarrow> (exn + response) \<times> 'w server" where
  "file_response_body E headers file s1 =
     (case invoke (Call_Storage_get_file (path file)) (Storage_get_file E (path file)) s1 of
        (Inl e, s2) \<Rightarrow> (Inl e, s2)
      | (Inr file_path, s2) \<Rightarrow>
          (if is_file E file_path (world s2)
           then (case headers of
                   Inl e \<Rightarrow> (Inl e, s2)
                 | Inr h \<Rightarrow> (FileResponse E file_path h, s2))
           else (not_found E, s2)))"

text \<open>
  Lines 309-315 and 340-346: \<^verbatim>\<open>except Exception\<close> around that body. It catches
  the 404 raised at line 305 (line 336) as well as an exception of
  \<^verbatim>\<open>Storage.get_file\<close>, of the header or of \<^verbatim>\<open>FileResponse\<close>.
\<close>

definition except_getting_content ::
  "'w collaborators \<Rightarrow> (exn + response) \<times> 'w server \<Rightarrow> (exn + response) \<times> 'w server" where
  "except_getting_content E r =
     (case r of
        (Inl e, s') \<Rightarrow>
          (Inl (HTTPException HTTP_400_BAD_REQUEST
                  (DEFAULT E (Err_str ''Error getting file content''))), s')
      | (Inr v, s') \<Rightarrow> (Inr v, s'))"

text \<open>Lines 289-320.\<close>

definition get_file_content_by_id ::
  "'w collaborators \<Rightarrow> string \<Rightarrow> UserModel \<Rightarrow> 'w server \<Rightarrow> (exn + response) \<times> 'w server" where
  "get_file_content_by_id E ident user s =
     with_file E ident user
       (\<lambda>file s1. except_getting_content E
                     (file_response_body E (attachment_headers file) file s1)) s"

text \<open>Lines 323-351.\<close>

definition get_html_file_content_by_id ::
  "'w collaborators \<Rightarrow> string \<Rightarrow> UserModel \<Rightarrow> 'w server \<Rightarrow> (exn + response) \<times> 'w server" where
  "get_html_file_content_by_id E ident user s =
     with_file E ident user
       (\<lambda>file s1. except_getting_content E (file_response_body E (Inr []) file s1)) s"

text \<open>
  Lines 354-394, the handler of \<^verbatim>\<open>GET /{id}/content/{file_name}\<close>. The source
  names it \<^verbatim>\<open>get_file_content_by_id\<close> again; both routes are registered. It has no
  \<^verbatim>\<open>try\<close>. \<^verbatim>\<open>if file_path\<close> is false for \<^verbatim>\<open>None\<close> and for the empty
  string; then line 378 reads \<^verbatim>\<open>file.content.get("content", "")\<close>, which raises
  when \<^verbatim>\<open>content\<close> is \<^verbatim>\<open>None\<close>, and the text is handed to
  \<^verbatim>\<open>StreamingResponse\<close>; the generator encodes it only when the response is
  sent, after the handler has returned.
\<close>

definition get_file_content_by_id_file_name ::
  "'w collaborators \<Rightarrow> string \<Rightarrow> UserModel \<Rightarrow> 'w server \<Rightarrow> (exn + response) \<times> 'w server" where
  "get_file_content_by_id_file_name E ident user s =
     with_file E ident user
       (\<lambda>file s1.
          if path file \<noteq> None \<and> path file \<noteq> Some ''''
          then file_response_body E (attachment_headers file) file s1
          else (case attr_get (content file) ''content'' (JStr '''') of
                  Inl e \<Rightarrow> (Inl e, s1)
                | Inr file_content \<Rightarrow>
                    (StreamingResponse E file_content ''text/plain''
                       [(''Content-Disposition'', ''attachment; filename='' @ filename file)],
                     s1))) s"

text \<open>Lines 402-427.\<close>

definition delete_file_by_id ::
  "'w collaborators \<Rightarrow> string \<Rightarrow> UserModel \<Rightarrow> 'w server \<Rightarrow> (exn + response) \<times> 'w server" where
  "delete_file_by_id E ident user s =
     with_file E ident user
       (\<lambda>file s1.
          case invoke (Call_Files_delete_file_by_id ident) (Files_delete_file_by_id E ident) s1 of
            (Inl e, s2) \<Rightarrow> (Inl e, s2)
          | (Inr result, s2) \<Rightarrow>
              (if result
               then (case invoke (Call_Storage_delete_file (filename file))
                            (Storage_delete_file E (filename file)) s2 of
                       (Inl e, s3) \<Rightarrow>
                         (Inl (HTTPException HTTP_400_BAD_REQUEST
                                 (DEFAULT E (Err_str ''Error deleting files''))), s3)
                     | (Inr u, s3) \<Rightarrow> (Inr (Return_message ''File deleted successfully''), s3))
               else (Inl (HTTPException HTTP_400_BAD_REQUEST
                            (DEFAULT E (Err_str ''Error deleting file''))), s2))) s"

section \<open>A reference instance of the collaborators\<close>

text \<open>
  Modelled from the spec: the registry \<^verbatim>\<open>Files\<close>
  (\<^verbatim>\<open>apps/webui/models/files.py\<close>), the blob storage \<^verbatim>\<open>Storage\<close>
  (\<^verbatim>\<open>storage/provider.py\<close>), the processor \<^verbatim>\<open>process_file\<close>
  (\<^verbatim>\<open>apps/retrieval/main.py\<close>) and \<^verbatim>\<open>ERROR_MESSAGES\<close>
  (\<^verbatim>\<open>constants.py\<close>) are not part of the sources. The instance below follows the
  interfaces the spec lists: a registry with insert, get-by-id, get-all, get-by-user,
  delete-by-id and delete-all; a blob storage with upload giving bytes and path,
  get-file-by-path giving a local path, delete-by-name and delete-all; a processor that
  mutates the record or fails with a processing error. The world is the registry table
  and the stored blobs.
\<close>

record sim =
  registry :: "FileModel list"
  blobs :: "(string \<times> bytes) list"

text \<open>
  Modelled from the spec: the failures the absent collaborators may report and the
  identifier the random source gives, chosen by the caller of the instance.
\<close>

record faults =
  uuid4_value :: string
  storage_upload_raises :: "exn option"
  insert_raises :: "exn option"
  process_raises :: "exn option"
  registry_delete_fails :: bool
  storage_delete_raises :: "exn option"

definition no_faults :: faults where
  "no_faults = \<lparr>uuid4_value = ''f1'', storage_upload_raises = None, insert_raises = None,
                 process_raises = None, registry_delete_fails = False,
                 storage_delete_raises = None\<rparr>"

text \<open>
  Modelled from the spec: the generator of identifiers; the reference instance returns
  the identifier its caller chose and leaves the world as it is.
\<close>

definition sim_uuid4 :: "faults \<Rightarrow> sim \<Rightarrow> string \<times> sim" where
  "sim_uuid4 flt w = (uuid4_value flt, w)"

text \<open>Modelled from the spec: the absent upload directory prefix \<^verbatim>\<open>UPLOAD_DIR\<close>.\<close>

definition UPLOAD_DIR :: string where
  "UPLOAD_DIR = ''uploads/''"

text \<open>Modelled from the spec: Blob Storage, upload giving (bytes, path).\<close>

definition sim_upload_file :: "faults \<Rightarrow> bytes \<Rightarrow> string \<Rightarrow> sim \<Rightarrow> (exn + bytes \<times> string) \<times> sim" where
  "sim_upload_file flt contents key w =
     (case storage_upload_raises flt of
        Some e \<Rightarrow> (Inl e, w)
      | None \<Rightarrow> (Inr (contents, UPLOAD_DIR @ key), w\<lparr>blobs := blobs w @ [(key, contents)]\<rparr>))"

text \<open>Modelled from the spec: Blob Storage, get-file-by-path giving a local path.\<close>

definition sim_get_file :: "string option \<Rightarrow> sim \<Rightarrow> (exn + string) \<times> sim" where
  "sim_get_file p w =
     (case p of
        None \<Rightarrow> (Inl (PyError ''TypeError'' ''expected str, not NoneType''), w)
      | Some q \<Rightarrow> (Inr q, w))"

text \<open>Modelled from the spec: a local path is a file when a blob is stored under it.\<close>

definition sim_is_file :: "string \<Rightarrow> sim \<Rightarrow> bool" where
  "sim_is_file p w = (p \<in> set (map (\<lambda>kb. UPLOAD_DIR @ fst kb) (blobs w)))"

text \<open>Modelled from the spec: Blob Storage, delete-by-name.\<close>

definition sim_delete_file :: "faults \<Rightarrow> string \<Rightarrow> sim \<Rightarrow> (exn + unit) \<times> sim" where
  "sim_delete_file flt name w =
     (case storage_delete_raises flt of
        Some e \<Rightarrow> (Inl e, w)
      | None \<Rightarrow> (Inr (), w\<lparr>blobs := filter (\<lambda>kb. fst kb \<noteq> name) (blobs w)\<rparr>))"

text \<open>Modelled from the spec: Blob Storage, delete-all.\<close>

definition sim_storage_delete_all :: "faults \<Rightarrow> sim \<Rightarrow> (exn + unit) \<times> sim" where
  "sim_storage_delete_all flt w =
     (case storage_delete_raises flt of
        Some e \<Rightarrow> (Inl e, w)
      | None \<Rightarrow> (Inr (), w\<lparr>blobs := []\<rparr>))"

text \<open>Modelled from the spec: Metadata Registry, insert.\<close>

definition sim_insert_new_file :: "faults \<Rightarrow> string \<Rightarrow> FileForm \<Rightarrow> sim \<Rightarrow> (exn + FileModel option) \<times> sim" where
  "sim_insert_new_file flt owner form w =
     (case insert_raises flt of
        Some e \<Rightarrow> (Inl e, w)
      | None \<Rightarrow>
          (let f = \<lparr>fid = form_id form, user_id = owner, filename = form_filename form,
                    path = Some (form_path form), meta = Some (form_meta form),
                    data = Some [], content = None\<rparr>
           in (Inr (Some f), w\<lparr>registry := registry w @ [f]\<rparr>)))"

text \<open>Modelled from the spec: Metadata Registry, get-by-id.\<close>

definition sim_get_file_by_id :: "string \<Rightarrow> sim \<Rightarrow> (exn + FileModel option) \<times> sim" where
  "sim_get_file_by_id ident w = (Inr (find (\<lambda>f. fid f = ident) (registry w)), w)"

text \<open>Modelled from the spec: Metadata Registry, get-all: all records.\<close>

definition sim_get_files :: "sim \<Rightarrow> (exn + FileModel list) \<times> sim" where
  "sim_get_files w = (Inr (registry w), w)"

text \<open>Modelled from the spec: Metadata Registry, get-by-user: the records owned by the user.\<close>

definition sim_get_files_by_user_id :: "string \<Rightarrow> sim \<Rightarrow> (exn + FileModel list) \<times> sim" where
  "sim_get_files_by_user_id u w = (Inr (filter (\<lambda>f. user_id f = u) (registry w)), w)"

text \<open>Modelled from the spec: Metadata Registry, delete-by-id, reporting success.\<close>

definition sim_delete_file_by_id :: "faults \<Rightarrow> string \<Rightarrow> sim \<Rightarrow> (exn + bool) \<times> sim" where
  "sim_delete_file_by_id flt ident w =
     (if registry_delete_fails flt then (Inr False, w)
      else (Inr True, w\<lparr>registry := filter (\<lambda>f. fid f \<noteq> ident) (registry w)\<rparr>))"

text \<open>Modelled from the spec: Metadata Registry, delete-all, reporting success.\<close>

definition sim_delete_all_files :: "faults \<Rightarrow> sim \<Rightarrow> (exn + bool) \<times> sim" where
  "sim_delete_all_files flt w =
     (if registry_delete_fails flt then (Inr False, w)
      else (Inr True, w\<lparr>registry := []\<rparr>))"

text \<open>
  Modelled from the spec: Content Processor, process(file_id, optional replacement
  content): it mutates the record, here by storing the replacement content (or the
  bytes of the blob read as text) under \<^verbatim>\<open>data["content"]\<close>, or fails with a
  processing error.
\<close>

definition sim_store_content :: "ProcessFileForm \<Rightarrow> sim \<Rightarrow> sim" where
  "sim_store_content form w =
     w\<lparr>registry :=
         map (\<lambda>f. if fid f = pf_file_id form
                   then f\<lparr>data :=
                            Some [(''content'',
                                   JStr (case pf_content form of
                                           Some c \<Rightarrow> c
                                         | None \<Rightarrow>
                                             (case map_of (blobs w) (fid f @ ''_'' @ filename f) of
                                                Some b \<Rightarrow> map (\<lambda>x. char_of (unat x)) b
                                              | None \<Rightarrow> '''')))]\<rparr>
                   else f)
           (registry w)\<rparr>"

definition sim_process_file :: "faults \<Rightarrow> ProcessFileForm \<Rightarrow> sim \<Rightarrow> (exn + unit) \<times> sim" where
  "sim_process_file flt form w =
     (case process_raises flt of
        Some e \<Rightarrow> (Inl e, w)
      | None \<Rightarrow> (Inr (), sim_store_content form w))"


text \<open>
  Modelled from the spec: the two response constructors of the absent framework; every
  header of the reference instance is latin-1, so they return.
\<close>

definition sim_FileResponse :: "string \<Rightarrow> (string \<times> string) list \<Rightarrow> exn + response" where
  "sim_FileResponse file_path headers = Inr (File_sent file_path headers)"

definition sim_StreamingResponse ::
  "jval \<Rightarrow> string \<Rightarrow> (string \<times> string) list \<Rightarrow> exn + response" where
  "sim_StreamingResponse body media_type headers = Inr (Stream_sent body media_type headers)"

text \<open>
  Modelled from the spec: the two members of the absent \<^verbatim>\<open>ERROR_MESSAGES\<close>; no
  statement below depends on their text.
\<close>

definition sim_DEFAULT :: "err_arg \<Rightarrow> string" where
  "sim_DEFAULT a =
     ''Something went wrong: ''
       @ (case a of Err_str m \<Rightarrow> m | Err_exn e \<Rightarrow> error_message e)"

definition sim_collaborators :: "faults \<Rightarrow> sim collaborators" where
  "sim_collaborators flt =
     \<lparr>uuid_uuid4 = sim_uuid4 flt,
      Storage_upload_file = sim_upload_file flt,
      Storage_get_file = sim_get_file,
      Storage_delete_file = sim_delete_file flt,
      Storage_delete_all_files = sim_storage_delete_all flt,
      Files_insert_new_file = sim_insert_new_file flt,
      Files_get_file_by_id = sim_get_file_by_id,
      Files_get_files = sim_get_files,
      Files_get_files_by_user_id = sim_get_files_by_user_id,
      Files_delete_file_by_id = sim_delete_file_by_id flt,
      Files_delete_all_files = sim_delete_all_files flt,
      process_file = sim_process_file flt,
      is_file = sim_is_file,
      FileResponse = sim_FileResponse,
      StreamingResponse = sim_StreamingResponse,
      DEFAULT = sim_DEFAULT,
      NOT_FOUND = ''not found''\<rparr>"

section \<open>Example requests\<close>

definition empty_server :: "sim server" where
  "empty_server = \<lparr>world = \<lparr>registry = [], blobs = []\<rparr>, calls = []\<rparr>"

definition passwd_upload :: UploadFile where
  "passwd_upload =
     \<lparr>file_filename = Some ''../../etc/passwd'', file_content_type = Some ''text/plain'',
      file_file = [104, 105]\<rparr>"

definition alice :: UserModel where
  "alice = \<lparr>uid = ''alice'', role = ''user''\<rparr>"

definition bob :: UserModel where
  "bob = \<lparr>uid = ''bob'', role = ''user''\<rparr>"

definition root :: UserModel where
  "root = \<lparr>uid = ''root'', role = ''admin''\<rparr>"

definition alice_file :: FileModel where
  "alice_file =
     \<lparr>fid = ''f1'', user_id = ''alice'', filename = ''passwd'',
      path = Some ''uploads/f1_passwd'',
      meta = Some [(''name'', JStr ''passwd''), (''content_type'', JStr ''text/plain''),
                   (''size'', JInt 2)],
      data = Some [(''content'', JStr ''old text'')], content = None\<rparr>"

definition bob_file :: FileModel where
  "bob_file =
     \<lparr>fid = ''f2'', user_id = ''bob'', filename = ''notes.txt'',
      path = Some ''uploads/f2_notes.txt'',
      meta = Some [(''name'', JStr ''notes.txt''), (''content_type'', JNone),
                   (''size'', JInt 0)],
      data = Some [], content = None\<rparr>"

text \<open>A server holding both records and the blob of the first.\<close>

definition two_files_server :: "sim server" where
  "two_files_server =
     \<lparr>world = \<lparr>registry = [alice_file, bob_file], blobs = [(''f1_passwd'', [104, 105])]\<rparr>,
      calls = []\<rparr>"

definition processing_fails :: faults where
  "processing_fails = no_faults\<lparr>process_raises := Some (HTTPException 400 ''No pandoc was found'')\<rparr>"

definition processing_fails_silently :: faults where
  "processing_fails_silently = no_faults\<lparr>process_raises := Some (PyError ''ValueError'' '''')\<rparr>"

definition storage_upload_fails :: faults where
  "storage_upload_fails = no_faults\<lparr>storage_upload_raises := Some (PyError ''OSError'' ''disk full'')\<rparr>"

definition insert_fails :: faults where
  "insert_fails = no_faults\<lparr>insert_raises := Some (PyError ''OperationalError'' ''database is locked'')\<rparr>"

definition registry_delete_reports_failure :: faults where
  "registry_delete_reports_failure = no_faults\<lparr>registry_delete_fails := True\<rparr>"

definition storage_delete_fails :: faults where
  "storage_delete_fails = no_faults\<lparr>storage_delete_raises := Some (PyError ''OSError'' ''permission denied'')\<rparr>"

text \<open>The record the reference registry creates for that upload under identifier \<open>f1\<close>.\<close>

definition fresh_passwd_file :: FileModel where
  "fresh_passwd_file = alice_file\<lparr>data := Some []\<rparr>"

definition passwd_form :: FileForm where
  "passwd_form =
     \<lparr>form_id = ''f1'', form_filename = ''passwd'', form_path = ''uploads/f1_passwd'',
      form_meta = [(''name'', JStr ''passwd''), (''content_type'', JStr ''text/plain''),
                   (''size'', JInt 2)]\<rparr>"

text \<open>A server whose registry holds the first record while its blob is gone.\<close>

definition blob_missing_server :: "sim server" where
  "blob_missing_server = \<lparr>world = \<lparr>registry = [alice_file], blobs = []\<rparr>, calls = []\<rparr>"

text \<open>The reference world after the blob write of that upload, and after its insert.\<close>

definition after_blob :: sim where
  "after_blob = \<lparr>registry = [], blobs = [(''f1_passwd'', [104, 105])]\<rparr>"

definition after_insert :: sim where
  "after_insert = \<lparr>registry = [fresh_passwd_file], blobs = [(''f1_passwd'', [104, 105])]\<rparr>"

text \<open>
  The reference world after the first record of \<open>two_files_server\<close> was deleted from
  the registry.
\<close>

definition after_delete :: sim where
  "after_delete = \<lparr>registry = [bob_file], blobs = [(''f1_passwd'', [104, 105])]\<rparr>"



text \<open>A second draw of the random source.\<close>

definition second_draw :: faults where
  "second_draw = no_faults\<lparr>uuid4_value := ''f2''\<rparr>"





section \<open>Helper lemmas\<close>

lemma invoke_eq:
  "f (world s) = (r, w') \<Longrightarrow> invoke c f s = (r, \<lparr>world = w', calls = calls s @ [c]\<rparr>)"
  by (simp add: invoke_def)







lemma basename_passwd: "basename ''../../etc/passwd'' = ''passwd''"
  by (simp add: basename_def)

lemma with_file_denied:
  assumes "Files_get_file_by_id E ident (world s) = (Inr found, wa)"
    and "case found of None \<Rightarrow> True
         | Some f \<Rightarrow> user_id f \<noteq> uid user \<and> role user \<noteq> ''admin''"
  shows "with_file E ident user k s =
           (Inl (HTTPException 404 (NOT_FOUND E)),
            \<lparr>world = wa, calls = calls s @ [Call_Files_get_file_by_id ident]\<rparr>)"
  using assms
  by (simp add: with_file_def invoke_eq not_found_def HTTP_404_NOT_FOUND_def
           split: option.splits)

lemma with_file_granted:
  assumes "Files_get_file_by_id E ident (world s) = (Inr (Some item), wa)"
    and "user_id item = uid user \<or> role user = ''admin''"
  shows "with_file E ident user k s =
           k item \<lparr>world = wa, calls = calls s @ [Call_Files_get_file_by_id ident]\<rparr>"
  using assms by (simp add: with_file_def invoke_eq)

section \<open>Lemmas on the upload handler\<close>

lemma upload_file_storage_failure:
  assumes "file_filename upload = Some declared"
    and "Storage_upload_file E (file_file upload) (new_id @ ''_'' @ basename declared) (world s)
           = (Inl storage_error, wa)"
  shows "upload_file E new_id upload user s =
           (Inl (HTTPException 400
                   (DEFAULT E (Err_exn (HTTPException 500
                      (DEFAULT E (Err_str ''Storage upload failed'')))))),
            \<lparr>world = wa,
             calls = calls s @ [Call_Storage_upload_file (file_file upload)
                                  (new_id @ ''_'' @ basename declared)]\<rparr>)"
  using assms
  by (simp add: upload_file_def upload_file_body_def invoke_eq Let_def
        HTTP_400_BAD_REQUEST_def HTTP_500_INTERNAL_SERVER_ERROR_def)

lemma upload_file_process_failure:
  assumes "file_filename upload = Some declared"
    and "Storage_upload_file E (file_file upload) (new_id @ ''_'' @ basename declared) (world s)
           = (Inr (contents, file_path), wa)"
    and "Files_insert_new_file E (uid user)
           \<lparr>form_id = new_id, form_filename = basename declared, form_path = file_path,
            form_meta = upload_meta (basename declared) (file_content_type upload) contents\<rparr> wa
           = (Inr (Some file_item), wb)"
    and "process_file E \<lparr>pf_file_id = new_id, pf_content = None\<rparr> wb = (Inl process_error, wc)"
  shows "upload_file E new_id upload user s =
           (Inr (Return_item \<lparr>dumped = file_item, error = Some (error_message process_error)\<rparr>),
            \<lparr>world = wc,
             calls = calls s @
               [Call_Storage_upload_file (file_file upload) (new_id @ ''_'' @ basename declared),
                Call_Files_insert_new_file (uid user)
                  \<lparr>form_id = new_id, form_filename = basename declared, form_path = file_path,
                   form_meta = upload_meta (basename declared) (file_content_type upload) contents\<rparr>,
                Call_process_file \<lparr>pf_file_id = new_id, pf_content = None\<rparr>]\<rparr>)"
  using assms
  by (simp add: upload_file_def upload_file_body_def invoke_eq upload_result_def Let_def
        process_failed_def)


lemma upload_file_insert_failure:
  assumes "file_filename upload = Some declared"
    and "Storage_upload_file E (file_file upload) (new_id @ ''_'' @ basename declared) (world s)
           = (Inr (contents, file_path), wa)"
    and "Files_insert_new_file E (uid user)
           \<lparr>form_id = new_id, form_filename = basename declared, form_path = file_path,
            form_meta = upload_meta (basename declared) (file_content_type upload) contents\<rparr> wa
           = (r, wb)"
    and "r = Inr None \<or> (\<exists>db_error. r = Inl db_error)"
  shows "upload_file E new_id upload user s =
           (Inl (HTTPException 400
                   (DEFAULT E (Err_exn (HTTPException 500
                      (DEFAULT E (Err_str ''Database record creation failed'')))))),
            \<lparr>world = wb,
             calls = calls s @
               [Call_Storage_upload_file (file_file upload) (new_id @ ''_'' @ basename declared),
                Call_Files_insert_new_file (uid user)
                  \<lparr>form_id = new_id, form_filename = basename declared, form_path = file_path,
                   form_meta = upload_meta (basename declared) (file_content_type upload) contents\<rparr>]\<rparr>)"
  using assms
  by (auto simp add: upload_file_def upload_file_body_def invoke_eq Let_def
        HTTP_400_BAD_REQUEST_def HTTP_500_INTERNAL_SERVER_ERROR_def)

lemma upload_file_calls:
  assumes "c \<in> set (drop (length (calls s)) (calls (snd (upload_file E new_id upload user s))))"
  shows "\<exists>declared. file_filename upload = Some declared \<and>
           (case c of
              Call_Storage_upload_file b key \<Rightarrow> key = new_id @ ''_'' @ basename declared
            | Call_Files_insert_new_file u form \<Rightarrow> form_filename form = basename declared
            | _ \<Rightarrow> True)"
  using assms
  by (auto simp add: upload_file_def upload_file_body_def invoke_def Let_def
        upload_result_def process_failed_def
        split: option.splits prod.splits sum.splits)


lemma upload_file_second_call:
  assumes "file_filename upload = Some declared"
    and "Storage_upload_file E (file_file upload) (new_id @ ''_'' @ basename declared) (world s)
           = (Inr (contents, file_path), wa)"
  shows "take (length (calls s) + 2) (calls (snd (upload_file E new_id upload user s))) =
           calls s @
             [Call_Storage_upload_file (file_file upload) (new_id @ ''_'' @ basename declared),
              Call_Files_insert_new_file (uid user)
                \<lparr>form_id = new_id, form_filename = basename declared, form_path = file_path,
                 form_meta = upload_meta (basename declared) (file_content_type upload) contents\<rparr>]"
  using assms
  by (auto simp add: upload_file_def upload_file_body_def invoke_def Let_def
        upload_result_def process_failed_def
        split: option.splits prod.splits sum.splits)

lemma key_differs_from_name: "name \<noteq> ident @ ''_'' @ name"
proof
  assume "name = ident @ ''_'' @ name"
  then have "length name = length (ident @ ''_'' @ name)" by simp
  then show False by simp
qed

section \<open>Lemmas on the delete handler\<close>

lemma delete_file_by_id_cases:
  assumes "Files_get_file_by_id E ident (world s) = (Inr (Some item), wa)"
    and "user_id item = uid user \<or> role user = ''admin''"
    and "Files_delete_file_by_id E ident wa = (Inr result, wb)"
    and "Storage_delete_file E (filename item) wb = (blob_result, wc)"
  shows "delete_file_by_id E ident user s =
           (if \<not> result
            then (Inl (HTTPException 400 (DEFAULT E (Err_str ''Error deleting file''))),
                  \<lparr>world = wb,
                   calls = calls s @ [Call_Files_get_file_by_id ident,
                                      Call_Files_delete_file_by_id ident]\<rparr>)
            else (case blob_result of
                    Inl e \<Rightarrow> Inl (HTTPException 400 (DEFAULT E (Err_str ''Error deleting files'')))
                  | Inr u \<Rightarrow> Inr (Return_message ''File deleted successfully''),
                  \<lparr>world = wc,
                   calls = calls s @ [Call_Files_get_file_by_id ident,
                                      Call_Files_delete_file_by_id ident,
                                      Call_Storage_delete_file (filename item)]\<rparr>))"
  using assms(3,4)
  by (simp add: delete_file_by_id_def with_file_granted [OF assms(1,2)] invoke_eq
        HTTP_400_BAD_REQUEST_def split: sum.splits)

section \<open>Evaluating the reference instance\<close>

lemma sim_sel:
  "uuid_uuid4 (sim_collaborators flt) = sim_uuid4 flt"
  "FileResponse (sim_collaborators flt) = sim_FileResponse"
  "StreamingResponse (sim_collaborators flt) = sim_StreamingResponse"
  "Storage_upload_file (sim_collaborators flt) = sim_upload_file flt"
  "Storage_get_file (sim_collaborators flt) = sim_get_file"
  "Storage_delete_file (sim_collaborators flt) = sim_delete_file flt"
  "Storage_delete_all_files (sim_collaborators flt) = sim_storage_delete_all flt"
  "Files_insert_new_file (sim_collaborators flt) = sim_insert_new_file flt"
  "Files_get_file_by_id (sim_collaborators flt) = sim_get_file_by_id"
  "Files_get_files (sim_collaborators flt) = sim_get_files"
  "Files_get_files_by_user_id (sim_collaborators flt) = sim_get_files_by_user_id"
  "Files_delete_file_by_id (sim_collaborators flt) = sim_delete_file_by_id flt"
  "Files_delete_all_files (sim_collaborators flt) = sim_delete_all_files flt"
  "process_file (sim_collaborators flt) = sim_process_file flt"
  "is_file (sim_collaborators flt) = sim_is_file"
  "DEFAULT (sim_collaborators flt) = sim_DEFAULT"
  "NOT_FOUND (sim_collaborators flt) = ''not found''"
  by (simp_all add: sim_collaborators_def)

lemmas fault_defs =
  no_faults_def processing_fails_def processing_fails_silently_def storage_upload_fails_def
  insert_fails_def registry_delete_reports_failure_def storage_delete_fails_def
  second_draw_def

lemma passwd_upload_filename: "file_filename passwd_upload = Some ''../../etc/passwd''"
  by (simp add: passwd_upload_def)

lemma passwd_form_eq:
  "\<lparr>form_id = ''f1'', form_filename = basename ''../../etc/passwd'',
    form_path = ''uploads/f1_passwd'',
    form_meta = upload_meta (basename ''../../etc/passwd'') (file_content_type passwd_upload)
                  [104, 105]\<rparr> = passwd_form"
  by (simp add: passwd_form_def passwd_upload_def upload_meta_def basename_passwd)

lemma sim_blob_write:
  "storage_upload_raises flt = None \<Longrightarrow>
   Storage_upload_file (sim_collaborators flt) (file_file passwd_upload)
     (''f1'' @ ''_'' @ basename ''../../etc/passwd'') (world empty_server)
     = (Inr ([104, 105], ''uploads/f1_passwd''), after_blob)"
  by (simp add: sim_sel sim_upload_file_def passwd_upload_def empty_server_def after_blob_def
        UPLOAD_DIR_def basename_passwd)

lemma sim_insert:
  "insert_raises flt = None \<Longrightarrow>
   Files_insert_new_file (sim_collaborators flt) (uid alice)
     \<lparr>form_id = ''f1'', form_filename = basename ''../../etc/passwd'',
      form_path = ''uploads/f1_passwd'',
      form_meta = upload_meta (basename ''../../etc/passwd'') (file_content_type passwd_upload)
                    [104, 105]\<rparr> after_blob
     = (Inr (Some fresh_passwd_file), after_insert)"
  unfolding passwd_form_eq
  by (simp add: sim_sel sim_insert_new_file_def passwd_form_def alice_def after_blob_def
        after_insert_def fresh_passwd_file_def alice_file_def Let_def)

lemma sim_process_raises:
  "process_raises flt = Some e \<Longrightarrow>
   process_file (sim_collaborators flt) form w = (Inl e, w)"
  by (simp add: sim_sel sim_process_file_def)

lemma sim_lookup_alice_file:
  "Files_get_file_by_id (sim_collaborators flt) ''f1'' (world two_files_server)
     = (Inr (Some alice_file), world two_files_server)"
  by (simp add: sim_sel sim_get_file_by_id_def two_files_server_def alice_file_def)

lemma sim_lookup_missing:
  "Files_get_file_by_id (sim_collaborators flt) ''f9'' (world two_files_server)
     = (Inr None, world two_files_server)"
  by (simp add: sim_sel sim_get_file_by_id_def two_files_server_def alice_file_def
        bob_file_def)

lemma alice_owns: "user_id alice_file = uid alice \<or> role alice = ''admin''"
  by (simp add: alice_file_def alice_def)

section \<open>The claims\<close>

text \<open>
  C1, as amended. When the blob write and the record insert succeed and the processor
  call raises, \<open>upload_file\<close> returns, with status 200, the inserted record with an
  \<^verbatim>\<open>error\<close> field that holds the failure's message: its \<^verbatim>\<open>detail\<close> when it
  has one, else its \<^verbatim>\<open>str()\<close>. The field is empty exactly when that message is.
  The handler calls no collaborator after the failed processor call, so the world, and
  with it the persisted record, is as the processor left it.
\<close>

theorem upload_file_processor_failure_annotated:
  assumes "file_filename upload = Some declared"
    and "Storage_upload_file E (file_file upload) (new_id @ ''_'' @ basename declared) (world s)
           = (Inr (contents, file_path), wa)"
    and "Files_insert_new_file E (uid user)
           \<lparr>form_id = new_id, form_filename = basename declared, form_path = file_path,
            form_meta = upload_meta (basename declared) (file_content_type upload) contents\<rparr> wa
           = (Inr (Some file_item), wb)"
    and "process_file E \<lparr>pf_file_id = new_id, pf_content = None\<rparr> wb = (Inl process_error, wc)"
  shows "upload_file E new_id upload user s =
           (Inr (Return_item \<lparr>dumped = file_item, error = Some (error_message process_error)\<rparr>),
            \<lparr>world = wc,
             calls = calls s @
               [Call_Storage_upload_file (file_file upload) (new_id @ ''_'' @ basename declared),
                Call_Files_insert_new_file (uid user)
                  \<lparr>form_id = new_id, form_filename = basename declared, form_path = file_path,
                   form_meta = upload_meta (basename declared) (file_content_type upload) contents\<rparr>,
                Call_process_file \<lparr>pf_file_id = new_id, pf_content = None\<rparr>]\<rparr>)
       \<and> status_code (fst (upload_file E new_id upload user s)) = 200"
  using upload_file_process_failure [OF assms] by simp

theorem upload_file_processor_failure_annotated_witness:
  "upload_file (sim_collaborators processing_fails) ''f1'' passwd_upload alice empty_server =
     (Inr (Return_item \<lparr>dumped = fresh_passwd_file, error = Some ''No pandoc was found''\<rparr>),
      \<lparr>world = after_insert,
       calls = [Call_Storage_upload_file [104, 105] ''f1_passwd'',
                Call_Files_insert_new_file ''alice'' passwd_form,
                Call_process_file \<lparr>pf_file_id = ''f1'', pf_content = None\<rparr>]\<rparr>)
   \<and> status_code
         (fst (upload_file (sim_collaborators processing_fails) ''f1'' passwd_upload alice
                 empty_server)) = 200"
proof -
  have blob: "storage_upload_raises processing_fails = None"
    and ins: "insert_raises processing_fails = None"
    and proc: "process_raises processing_fails = Some (HTTPException 400 ''No pandoc was found'')"
    by (simp_all add: fault_defs)
  show ?thesis
    using upload_file_processor_failure_annotated
      [OF passwd_upload_filename sim_blob_write [OF blob] sim_insert [OF ins]
          sim_process_raises [OF proc]]
    unfolding passwd_form_eq
    by (simp add: basename_passwd passwd_upload_def alice_def empty_server_def)
qed

text \<open>
  C1 as stated fails: a processor failure whose message is empty (\<^verbatim>\<open>raise ValueError()\<close>)
  gives status 200 with an \<^verbatim>\<open>error\<close> field that is the empty string.
\<close>

theorem upload_file_error_field_empty:
  "Storage_upload_file (sim_collaborators processing_fails_silently) (file_file passwd_upload)
       (''f1'' @ ''_'' @ basename ''../../etc/passwd'') (world empty_server)
     = (Inr ([104, 105], ''uploads/f1_passwd''), after_blob)
   \<and> Files_insert_new_file (sim_collaborators processing_fails_silently) (uid alice)
       passwd_form after_blob
     = (Inr (Some fresh_passwd_file), after_insert)
   \<and> process_file (sim_collaborators processing_fails_silently)
       \<lparr>pf_file_id = ''f1'', pf_content = None\<rparr> after_insert
     = (Inl (PyError ''ValueError'' ''''), after_insert)
   \<and> fst (upload_file (sim_collaborators processing_fails_silently) ''f1'' passwd_upload alice
            empty_server)
     = Inr (Return_item \<lparr>dumped = fresh_passwd_file, error = Some ''''\<rparr>)"
proof -
  have blob: "storage_upload_raises processing_fails_silently = None"
    and ins: "insert_raises processing_fails_silently = None"
    and proc: "process_raises processing_fails_silently = Some (PyError ''ValueError'' '''')"
    by (simp_all add: fault_defs)
  show ?thesis
    using upload_file_process_failure
      [OF passwd_upload_filename sim_blob_write [OF blob] sim_insert [OF ins]
          sim_process_raises [OF proc]]
      sim_blob_write [OF blob] sim_insert [OF ins]
      sim_process_raises [OF proc, of "\<lparr>pf_file_id = ''f1'', pf_content = None\<rparr>" after_insert]
    unfolding passwd_form_eq
    by simp
qed

text \<open>
  C2. When the blob write raises, or the registry insert raises or returns
  \<^verbatim>\<open>None\<close>, the handler raises status 500 inside the outer \<^verbatim>\<open>try\<close>; the outer
  \<^verbatim>\<open>except Exception\<close> catches it and \<open>upload_file\<close> answers 400, with the 500
  as the argument of the message. After a failed blob write the registry insert is not
  called; after a failed insert no further collaborator is called.
\<close>

theorem upload_file_storage_or_insert_failure:
  assumes "file_filename upload = Some declared"
  shows "(\<forall>storage_error wa.
            Storage_upload_file E (file_file upload) (new_id @ ''_'' @ basename declared) (world s)
              = (Inl storage_error, wa) \<longrightarrow>
            upload_file E new_id upload user s =
              (Inl (HTTPException 400
                      (DEFAULT E (Err_exn (HTTPException 500
                         (DEFAULT E (Err_str ''Storage upload failed'')))))),
               \<lparr>world = wa,
                calls = calls s @ [Call_Storage_upload_file (file_file upload)
                                     (new_id @ ''_'' @ basename declared)]\<rparr>))
       \<and> (\<forall>contents file_path wa r wb.
            Storage_upload_file E (file_file upload) (new_id @ ''_'' @ basename declared) (world s)
              = (Inr (contents, file_path), wa) \<longrightarrow>
            Files_insert_new_file E (uid user)
              \<lparr>form_id = new_id, form_filename = basename declared, form_path = file_path,
               form_meta = upload_meta (basename declared) (file_content_type upload) contents\<rparr> wa
              = (r, wb) \<longrightarrow>
            (r = Inr None \<or> (\<exists>db_error. r = Inl db_error)) \<longrightarrow>
            upload_file E new_id upload user s =
              (Inl (HTTPException 400
                      (DEFAULT E (Err_exn (HTTPException 500
                         (DEFAULT E (Err_str ''Database record creation failed'')))))),
               \<lparr>world = wb,
                calls = calls s @
                  [Call_Storage_upload_file (file_file upload) (new_id @ ''_'' @ basename declared),
                   Call_Files_insert_new_file (uid user)
                     \<lparr>form_id = new_id, form_filename = basename declared,
                      form_path = file_path,
                      form_meta = upload_meta (basename declared) (file_content_type upload)
                                    contents\<rparr>]\<rparr>))"
proof (intro conjI allI impI)
  fix storage_error wa
  assume "Storage_upload_file E (file_file upload) (new_id @ ''_'' @ basename declared) (world s)
            = (Inl storage_error, wa)"
  then show "upload_file E new_id upload user s =
               (Inl (HTTPException 400
                       (DEFAULT E (Err_exn (HTTPException 500
                          (DEFAULT E (Err_str ''Storage upload failed'')))))),
                \<lparr>world = wa,
                 calls = calls s @ [Call_Storage_upload_file (file_file upload)
                                      (new_id @ ''_'' @ basename declared)]\<rparr>)"
    by (rule upload_file_storage_failure [OF assms])
next
  fix contents file_path wa r wb
  assume "Storage_upload_file E (file_file upload) (new_id @ ''_'' @ basename declared) (world s)
            = (Inr (contents, file_path), wa)"
    and "Files_insert_new_file E (uid user)
           \<lparr>form_id = new_id, form_filename = basename declared, form_path = file_path,
            form_meta = upload_meta (basename declared) (file_content_type upload) contents\<rparr> wa
           = (r, wb)"
    and "r = Inr None \<or> (\<exists>db_error. r = Inl db_error)"
  then show "upload_file E new_id upload user s =
               (Inl (HTTPException 400
                       (DEFAULT E (Err_exn (HTTPException 500
                          (DEFAULT E (Err_str ''Database record creation failed'')))))),
                \<lparr>world = wb,
                 calls = calls s @
                   [Call_Storage_upload_file (file_file upload) (new_id @ ''_'' @ basename declared),
                    Call_Files_insert_new_file (uid user)
                      \<lparr>form_id = new_id, form_filename = basename declared,
                       form_path = file_path,
                       form_meta = upload_meta (basename declared) (file_content_type upload)
                                     contents\<rparr>]\<rparr>)"
    by (rule upload_file_insert_failure [OF assms])
qed

theorem upload_file_storage_or_insert_failure_witness:
  "status_code (fst (upload_file (sim_collaborators storage_upload_fails) ''f1'' passwd_upload
                       alice empty_server)) = 400
   \<and> snd (upload_file (sim_collaborators storage_upload_fails) ''f1'' passwd_upload alice
            empty_server)
     = \<lparr>world = \<lparr>registry = [], blobs = []\<rparr>,
        calls = [Call_Storage_upload_file [104, 105] ''f1_passwd'']\<rparr>
   \<and> status_code (fst (upload_file (sim_collaborators insert_fails) ''f1'' passwd_upload
                         alice empty_server)) = 400
   \<and> snd (upload_file (sim_collaborators insert_fails) ''f1'' passwd_upload alice empty_server)
     = \<lparr>world = after_blob,
        calls = [Call_Storage_upload_file [104, 105] ''f1_passwd'',
                 Call_Files_insert_new_file ''alice'' passwd_form]\<rparr>"
proof -
  have blob_fails:
    "Storage_upload_file (sim_collaborators storage_upload_fails) (file_file passwd_upload)
       (''f1'' @ ''_'' @ basename ''../../etc/passwd'') (world empty_server)
       = (Inl (PyError ''OSError'' ''disk full''), \<lparr>registry = [], blobs = []\<rparr>)"
    by (simp add: sim_sel sim_upload_file_def fault_defs empty_server_def)
  have blob: "storage_upload_raises insert_fails = None"
    by (simp add: fault_defs)
  have ins_fails:
    "Files_insert_new_file (sim_collaborators insert_fails) (uid alice)
       \<lparr>form_id = ''f1'', form_filename = basename ''../../etc/passwd'',
        form_path = ''uploads/f1_passwd'',
        form_meta = upload_meta (basename ''../../etc/passwd'')
                      (file_content_type passwd_upload) [104, 105]\<rparr> after_blob
       = (Inl (PyError ''OperationalError'' ''database is locked''), after_blob)"
    by (simp add: sim_sel sim_insert_new_file_def fault_defs)
  note first =
    upload_file_storage_or_insert_failure
      [OF passwd_upload_filename, THEN conjunct1, rule_format, OF blob_fails, of alice]
  note second =
    upload_file_storage_or_insert_failure
      [OF passwd_upload_filename, THEN conjunct2, rule_format,
       OF sim_blob_write [OF blob] ins_fails]
  have "Inl (PyError ''OperationalError'' ''database is locked'') = Inr None
        \<or> (\<exists>db_error. (Inl (PyError ''OperationalError'' ''database is locked'')
                          :: exn + FileModel option) = Inl db_error)"
    by simp
  note second = second [OF this]
  show ?thesis
    using first second
    unfolding passwd_form_eq
    by (simp add: basename_passwd passwd_upload_def alice_def empty_server_def)
qed

text \<open>
  C3. On each of the seven handlers addressed by identifier, a caller who is neither the
  owner of the record nor an admin, and a caller asking for an identifier with no record,
  get the same answer: \<^verbatim>\<open>HTTPException\<close> with status 404 and the \<^verbatim>\<open>NOT_FOUND\<close>
  message, after the lookup and no other call. Status 403 is never raised.
\<close>

theorem unauthorized_or_missing_is_404:
  assumes "Files_get_file_by_id E ident (world s) = (Inr found, wa)"
    and "case found of None \<Rightarrow> True
         | Some f \<Rightarrow> user_id f \<noteq> uid user \<and> role user \<noteq> ''admin''"
  shows "get_file_by_id E ident user s =
           (Inl (HTTPException 404 (NOT_FOUND E)),
            \<lparr>world = wa, calls = calls s @ [Call_Files_get_file_by_id ident]\<rparr>)
       \<and> get_file_data_content_by_id E ident user s =
           (Inl (HTTPException 404 (NOT_FOUND E)),
            \<lparr>world = wa, calls = calls s @ [Call_Files_get_file_by_id ident]\<rparr>)
       \<and> update_file_data_content_by_id E ident form_content user s =
           (Inl (HTTPException 404 (NOT_FOUND E)),
            \<lparr>world = wa, calls = calls s @ [Call_Files_get_file_by_id ident]\<rparr>)
       \<and> get_file_content_by_id E ident user s =
           (Inl (HTTPException 404 (NOT_FOUND E)),
            \<lparr>world = wa, calls = calls s @ [Call_Files_get_file_by_id ident]\<rparr>)
       \<and> get_html_file_content_by_id E ident user s =
           (Inl (HTTPException 404 (NOT_FOUND E)),
            \<lparr>world = wa, calls = calls s @ [Call_Files_get_file_by_id ident]\<rparr>)
       \<and> get_file_content_by_id_file_name E ident user s =
           (Inl (HTTPException 404 (NOT_FOUND E)),
            \<lparr>world = wa, calls = calls s @ [Call_Files_get_file_by_id ident]\<rparr>)
       \<and> delete_file_by_id E ident user s =
           (Inl (HTTPException 404 (NOT_FOUND E)),
            \<lparr>world = wa, calls = calls s @ [Call_Files_get_file_by_id ident]\<rparr>)"
  unfolding get_file_by_id_def get_file_data_content_by_id_def
    update_file_data_content_by_id_def get_file_content_by_id_def
    get_html_file_content_by_id_def get_file_content_by_id_file_name_def
    delete_file_by_id_def
  by (simp add: with_file_denied [OF assms])

theorem unauthorized_or_missing_is_404_witness:
  "fst (get_file_by_id (sim_collaborators no_faults) ''f1'' bob two_files_server)
     = Inl (HTTPException 404 ''not found'')
   \<and> fst (get_file_data_content_by_id (sim_collaborators no_faults) ''f1'' bob two_files_server)
     = Inl (HTTPException 404 ''not found'')
   \<and> fst (update_file_data_content_by_id (sim_collaborators no_faults) ''f1'' ''new text'' bob
            two_files_server)
     = Inl (HTTPException 404 ''not found'')
   \<and> fst (get_file_content_by_id (sim_collaborators no_faults) ''f1'' bob two_files_server)
     = Inl (HTTPException 404 ''not found'')
   \<and> fst (get_html_file_content_by_id (sim_collaborators no_faults) ''f1'' bob two_files_server)
     = Inl (HTTPException 404 ''not found'')
   \<and> fst (get_file_content_by_id_file_name (sim_collaborators no_faults) ''f1'' bob
            two_files_server)
     = Inl (HTTPException 404 ''not found'')
   \<and> fst (delete_file_by_id (sim_collaborators no_faults) ''f1'' bob two_files_server)
     = Inl (HTTPException 404 ''not found'')
   \<and> fst (get_file_by_id (sim_collaborators no_faults) ''f9'' bob two_files_server)
     = Inl (HTTPException 404 ''not found'')
   \<and> fst (delete_file_by_id (sim_collaborators no_faults) ''f9'' bob two_files_server)
     = Inl (HTTPException 404 ''not found'')"
proof -
  have other: "case Some alice_file of None \<Rightarrow> True
               | Some f \<Rightarrow> user_id f \<noteq> uid bob \<and> role bob \<noteq> ''admin''"
    by (simp add: alice_file_def bob_def)
  have missing: "case None of None \<Rightarrow> True
                 | Some f \<Rightarrow> user_id f \<noteq> uid bob \<and> role bob \<noteq> ''admin''"
    by simp
  show ?thesis
    using unauthorized_or_missing_is_404
            [OF sim_lookup_alice_file [of no_faults] other, where form_content = "''new text''"]
          unauthorized_or_missing_is_404
            [OF sim_lookup_missing [of no_faults] missing, where form_content = "''new text''"]
    by (simp add: sim_sel)
qed

text \<open>
  C4. For an authorized request to \<^verbatim>\<open>GET /{id}/content\<close> for which
  \<^verbatim>\<open>Storage.get_file\<close> returns a path: if the path is not an existing file, the
  404 raised at line 305 is caught by the \<^verbatim>\<open>except Exception\<close> of line 309 and the
  handler answers 400. If the path is an existing file, the handler answers with the
  \<^verbatim>\<open>FileResponse\<close> built from the path and the attachment header, unless building
  the header or the response raises, which the same \<^verbatim>\<open>except\<close> turns into 400.
\<close>

theorem get_file_content_missing_blob_is_400:
  assumes "Files_get_file_by_id E ident (world s) = (Inr (Some item), wa)"
    and "user_id item = uid user \<or> role user = ''admin''"
    and "Storage_get_file E (path item) wa = (Inr file_path, wb)"
  shows "get_file_content_by_id E ident user s =
           (if is_file E file_path wb
            then (case attachment_headers item of
                    Inl e \<Rightarrow>
                      Inl (HTTPException 400 (DEFAULT E (Err_str ''Error getting file content'')))
                  | Inr headers \<Rightarrow>
                      (case FileResponse E file_path headers of
                         Inl e \<Rightarrow>
                           Inl (HTTPException 400
                                  (DEFAULT E (Err_str ''Error getting file content'')))
                       | Inr sent \<Rightarrow> Inr sent))
            else Inl (HTTPException 400 (DEFAULT E (Err_str ''Error getting file content''))),
            \<lparr>world = wb,
             calls = calls s @ [Call_Files_get_file_by_id ident,
                                Call_Storage_get_file (path item)]\<rparr>)"
  using assms(3)
  by (simp add: get_file_content_by_id_def with_file_granted [OF assms(1,2)] invoke_eq
        except_getting_content_def file_response_body_def not_found_def
        HTTP_400_BAD_REQUEST_def split: sum.splits)

theorem get_file_content_missing_blob_is_400_witness:
  "get_file_content_by_id (sim_collaborators no_faults) ''f1'' alice blob_missing_server
     = (Inl (HTTPException 400 (sim_DEFAULT (Err_str ''Error getting file content''))),
        \<lparr>world = world blob_missing_server,
         calls = [Call_Files_get_file_by_id ''f1'',
                  Call_Storage_get_file (Some ''uploads/f1_passwd'')]\<rparr>)
   \<and> fst (get_file_content_by_id (sim_collaborators no_faults) ''f1'' alice two_files_server)
     = Inr (File_sent ''uploads/f1_passwd''
              [(''Content-Disposition'',
                ''attachment; filename='' @ [CHR 0x22] @ ''passwd'' @ [CHR 0x22])])"
proof -
  have lookup:
    "Files_get_file_by_id (sim_collaborators no_faults) ''f1'' (world blob_missing_server)
       = (Inr (Some alice_file), world blob_missing_server)"
    by (simp add: sim_sel sim_get_file_by_id_def blob_missing_server_def alice_file_def)
  have resolve: "Storage_get_file (sim_collaborators no_faults) (path alice_file) w
                   = (Inr ''uploads/f1_passwd'', w)" for w
    by (simp add: sim_sel sim_get_file_def alice_file_def)
  have absent: "\<not> is_file (sim_collaborators no_faults) ''uploads/f1_passwd''
                    (world blob_missing_server)"
    by (simp add: sim_sel sim_is_file_def blob_missing_server_def)
  have present: "is_file (sim_collaborators no_faults) ''uploads/f1_passwd''
                   (world two_files_server)"
    by (simp add: sim_sel sim_is_file_def two_files_server_def UPLOAD_DIR_def)
  have headers: "attachment_headers alice_file =
                   Inr [(''Content-Disposition'',
                         ''attachment; filename='' @ [CHR 0x22] @ ''passwd'' @ [CHR 0x22])]"
    by (simp add: attachment_headers_def attr_get_def dict_get_def alice_file_def)
  have path: "path alice_file = Some ''uploads/f1_passwd''"
    by (simp add: alice_file_def)
  show ?thesis
    using get_file_content_missing_blob_is_400 [OF lookup alice_owns resolve]
          get_file_content_missing_blob_is_400 [OF sim_lookup_alice_file alice_owns resolve]
          absent present
    by (simp add: headers path sim_sel sim_FileResponse_def blob_missing_server_def)
qed










lemma sim_registry_delete_ok:
  "\<not> registry_delete_fails flt \<Longrightarrow>
   Files_delete_file_by_id (sim_collaborators flt) ''f1'' (world two_files_server)
     = (Inr True, after_delete)"
  by (simp add: sim_sel sim_delete_file_by_id_def two_files_server_def after_delete_def
        alice_file_def bob_file_def)

lemma sim_registry_delete_fails:
  "registry_delete_fails flt \<Longrightarrow>
   Files_delete_file_by_id (sim_collaborators flt) ident w = (Inr False, w)"
  by (simp add: sim_sel sim_delete_file_by_id_def)

lemma sim_blob_delete_ok:
  "storage_delete_raises flt = None \<Longrightarrow>
   Storage_delete_file (sim_collaborators flt) (filename alice_file) after_delete
     = (Inr (), after_delete)"
  by (simp add: sim_sel sim_delete_file_def after_delete_def alice_file_def)

lemma sim_blob_delete_raises:
  "storage_delete_raises flt = Some e \<Longrightarrow>
   Storage_delete_file (sim_collaborators flt) name w = (Inl e, w)"
  by (simp add: sim_sel sim_delete_file_def)

text \<open>
  C6. For an authorized \<^verbatim>\<open>DELETE /{id}\<close>, the registry delete is called first. If
  it reports failure the handler answers 400 and the blob delete is not called. If it
  reports success the blob delete is called with the filename of the record; when that
  raises the handler answers 400 although the registry delete has been done, and when it
  returns the handler answers with the success message.
\<close>

theorem delete_file_by_id_order:
  assumes "Files_get_file_by_id E ident (world s) = (Inr (Some item), wa)"
    and "user_id item = uid user \<or> role user = ''admin''"
    and "Files_delete_file_by_id E ident wa = (Inr result, wb)"
    and "Storage_delete_file E (filename item) wb = (blob_result, wc)"
  shows "delete_file_by_id E ident user s =
           (if \<not> result
            then (Inl (HTTPException 400 (DEFAULT E (Err_str ''Error deleting file''))),
                  \<lparr>world = wb,
                   calls = calls s @ [Call_Files_get_file_by_id ident,
                                      Call_Files_delete_file_by_id ident]\<rparr>)
            else (case blob_result of
                    Inl e \<Rightarrow> Inl (HTTPException 400 (DEFAULT E (Err_str ''Error deleting files'')))
                  | Inr u \<Rightarrow> Inr (Return_message ''File deleted successfully''),
                  \<lparr>world = wc,
                   calls = calls s @ [Call_Files_get_file_by_id ident,
                                      Call_Files_delete_file_by_id ident,
                                      Call_Storage_delete_file (filename item)]\<rparr>))"
  by (rule delete_file_by_id_cases [OF assms])

theorem delete_file_by_id_order_witness:
  "delete_file_by_id (sim_collaborators no_faults) ''f1'' alice two_files_server
     = (Inr (Return_message ''File deleted successfully''),
        \<lparr>world = after_delete,
         calls = [Call_Files_get_file_by_id ''f1'', Call_Files_delete_file_by_id ''f1'',
                  Call_Storage_delete_file ''passwd'']\<rparr>)
   \<and> delete_file_by_id (sim_collaborators registry_delete_reports_failure) ''f1'' alice
       two_files_server
     = (Inl (HTTPException 400 (sim_DEFAULT (Err_str ''Error deleting file''))),
        \<lparr>world = world two_files_server,
         calls = [Call_Files_get_file_by_id ''f1'', Call_Files_delete_file_by_id ''f1'']\<rparr>)
   \<and> delete_file_by_id (sim_collaborators storage_delete_fails) ''f1'' alice two_files_server
     = (Inl (HTTPException 400 (sim_DEFAULT (Err_str ''Error deleting files''))),
        \<lparr>world = after_delete,
         calls = [Call_Files_get_file_by_id ''f1'', Call_Files_delete_file_by_id ''f1'',
                  Call_Storage_delete_file ''passwd'']\<rparr>)"
proof -
  have ok: "\<not> registry_delete_fails no_faults" "storage_delete_raises no_faults = None"
    and reg: "registry_delete_fails registry_delete_reports_failure"
      "storage_delete_raises registry_delete_reports_failure = None"
    and blob: "\<not> registry_delete_fails storage_delete_fails"
      "storage_delete_raises storage_delete_fails = Some (PyError ''OSError'' ''permission denied'')"
    by (simp_all add: fault_defs)
  have unused:
    "Storage_delete_file (sim_collaborators registry_delete_reports_failure)
       (filename alice_file) (world two_files_server)
     = (Inr (), (world two_files_server)
                  \<lparr>blobs := filter (\<lambda>kb. fst kb \<noteq> filename alice_file)
                              (blobs (world two_files_server))\<rparr>)"
    using reg(2) by (simp add: sim_sel sim_delete_file_def)
  show ?thesis
    using delete_file_by_id_order
            [OF sim_lookup_alice_file alice_owns sim_registry_delete_ok [OF ok(1)]
                sim_blob_delete_ok [OF ok(2)]]
          delete_file_by_id_order
            [OF sim_lookup_alice_file alice_owns sim_registry_delete_fails [OF reg(1)] unused]
          delete_file_by_id_order
            [OF sim_lookup_alice_file alice_owns sim_registry_delete_ok [OF blob(1)]
                sim_blob_delete_raises [OF blob(2)]]
    by (simp add: sim_sel two_files_server_def alice_file_def)
qed

text \<open>
  C7. For \<^verbatim>\<open>DELETE /all\<close>, the registry bulk delete is called first. If it reports
  failure the handler answers 400 and the blob bulk delete is not called. If it reports
  success the blob bulk delete is called; when that raises the handler answers 400, and
  when it returns the handler answers with the success message, whatever the registry
  held, an empty registry included.
\<close>

theorem delete_all_files_outcomes:
  assumes "Files_delete_all_files E (world s) = (Inr result, wa)"
    and "Storage_delete_all_files E wa = (blob_result, wb)"
  shows "delete_all_files E user s =
           (if \<not> result
            then (Inl (HTTPException 400 (DEFAULT E (Err_str ''Error deleting files''))),
                  \<lparr>world = wa, calls = calls s @ [Call_Files_delete_all_files]\<rparr>)
            else (case blob_result of
                    Inl e \<Rightarrow> Inl (HTTPException 400 (DEFAULT E (Err_str ''Error deleting files'')))
                  | Inr u \<Rightarrow> Inr (Return_message ''All files deleted successfully''),
                  \<lparr>world = wb,
                   calls = calls s @ [Call_Files_delete_all_files,
                                      Call_Storage_delete_all_files]\<rparr>))"
  using assms
  by (simp add: delete_all_files_def invoke_eq HTTP_400_BAD_REQUEST_def split: sum.splits)

theorem delete_all_files_outcomes_witness:
  "delete_all_files (sim_collaborators no_faults) root empty_server
     = (Inr (Return_message ''All files deleted successfully''),
        \<lparr>world = \<lparr>registry = [], blobs = []\<rparr>,
         calls = [Call_Files_delete_all_files, Call_Storage_delete_all_files]\<rparr>)
   \<and> delete_all_files (sim_collaborators registry_delete_reports_failure) root two_files_server
     = (Inl (HTTPException 400 (sim_DEFAULT (Err_str ''Error deleting files''))),
        \<lparr>world = world two_files_server, calls = [Call_Files_delete_all_files]\<rparr>)
   \<and> delete_all_files (sim_collaborators storage_delete_fails) root two_files_server
     = (Inl (HTTPException 400 (sim_DEFAULT (Err_str ''Error deleting files''))),
        \<lparr>world = \<lparr>registry = [], blobs = [(''f1_passwd'', [104, 105])]\<rparr>,
         calls = [Call_Files_delete_all_files, Call_Storage_delete_all_files]\<rparr>)"
proof -
  have empty:
    "Files_delete_all_files (sim_collaborators no_faults) (world empty_server)
       = (Inr True, \<lparr>registry = [], blobs = []\<rparr>)"
    "Storage_delete_all_files (sim_collaborators no_faults) \<lparr>registry = [], blobs = []\<rparr>
       = (Inr (), \<lparr>registry = [], blobs = []\<rparr>)"
    by (simp_all add: sim_sel sim_delete_all_files_def sim_storage_delete_all_def fault_defs
          empty_server_def)
  have reg:
    "Files_delete_all_files (sim_collaborators registry_delete_reports_failure)
       (world two_files_server) = (Inr False, world two_files_server)"
    "Storage_delete_all_files (sim_collaborators registry_delete_reports_failure)
       (world two_files_server) = (Inr (), (world two_files_server)\<lparr>blobs := []\<rparr>)"
    by (simp_all add: sim_sel sim_delete_all_files_def sim_storage_delete_all_def fault_defs)
  have blob:
    "Files_delete_all_files (sim_collaborators storage_delete_fails) (world two_files_server)
       = (Inr True, \<lparr>registry = [], blobs = [(''f1_passwd'', [104, 105])]\<rparr>)"
    "Storage_delete_all_files (sim_collaborators storage_delete_fails)
       \<lparr>registry = [], blobs = [(''f1_passwd'', [104, 105])]\<rparr>
       = (Inl (PyError ''OSError'' ''permission denied''),
          \<lparr>registry = [], blobs = [(''f1_passwd'', [104, 105])]\<rparr>)"
    by (simp_all add: sim_sel sim_delete_all_files_def sim_storage_delete_all_def fault_defs
          two_files_server_def)
  show ?thesis
    using delete_all_files_outcomes [OF empty, of root]
          delete_all_files_outcomes [OF reg, of root]
          delete_all_files_outcomes [OF blob, of root]
    by (simp add: sim_sel empty_server_def two_files_server_def)
qed

text \<open>
  C8. With the registry of the reference instance, \<^verbatim>\<open>GET /\<close> gives a caller whose
  role is admin every record of the registry, and gives any other caller exactly the
  records whose owner is the caller, in registry order, after a single registry call: no
  pagination, no further filter.
\<close>

theorem list_files_admin_all_others_own:
  "list_files (sim_collaborators flt) user s =
     (Inr (Return_files
             (if role user = ''admin'' then registry (world s)
              else filter (\<lambda>f. user_id f = uid user) (registry (world s)))),
      \<lparr>world = world s,
       calls = calls s @ [if role user = ''admin'' then Call_Files_get_files
                          else Call_Files_get_files_by_user_id (uid user)]\<rparr>)"
  by (simp add: list_files_def returning_def invoke_def sim_sel
        sim_get_files_def sim_get_files_by_user_id_def)

theorem list_files_admin_all_others_own_witness:
  "fst (list_files (sim_collaborators no_faults) root two_files_server)
     = Inr (Return_files [alice_file, bob_file])
   \<and> fst (list_files (sim_collaborators no_faults) alice two_files_server)
     = Inr (Return_files [alice_file])
   \<and> fst (list_files (sim_collaborators no_faults) alice empty_server)
     = Inr (Return_files [])"
  using list_files_admin_all_others_own [of no_faults root two_files_server]
        list_files_admin_all_others_own [of no_faults alice two_files_server]
        list_files_admin_all_others_own [of no_faults alice empty_server]
  by (simp add: root_def alice_def two_files_server_def empty_server_def alice_file_def
        bob_file_def)







text \<open>
  C10. The blob write of \<open>upload_file\<close> uses the key made of the identifier, an
  underscore and the sanitized name, while the record it inserts has the sanitized name
  alone as filename. For a record with that filename, \<open>delete_file_by_id\<close> passes the
  filename to \<^verbatim>\<open>Storage.delete_file\<close>, and the filename differs from the key,
  whatever the identifier.
\<close>

theorem delete_passes_filename_not_key:
  assumes "Call_Storage_upload_file b key
             \<in> set (drop (length (calls t)) (calls (snd (upload_file E new_id upload owner t))))"
    and "Call_Files_insert_new_file u form
             \<in> set (drop (length (calls t)) (calls (snd (upload_file E new_id upload owner t))))"
    and "filename item = form_filename form"
    and "Files_get_file_by_id E ident (world s) = (Inr (Some item), wa)"
    and "user_id item = uid user \<or> role user = ''admin''"
    and "Files_delete_file_by_id E ident wa = (Inr True, wb)"
  shows "calls (snd (delete_file_by_id E ident user s)) =
           calls s @ [Call_Files_get_file_by_id ident, Call_Files_delete_file_by_id ident,
                      Call_Storage_delete_file (filename item)]
       \<and> key = new_id @ ''_'' @ filename item
       \<and> filename item \<noteq> key"
proof -
  obtain blob_result wc where
    blob: "Storage_delete_file E (filename item) wb = (blob_result, wc)"
    by (cases "Storage_delete_file E (filename item) wb")
  have "calls (snd (delete_file_by_id E ident user s)) =
          calls s @ [Call_Files_get_file_by_id ident, Call_Files_delete_file_by_id ident,
                     Call_Storage_delete_file (filename item)]"
    using delete_file_by_id_cases [OF assms(4,5,6) blob] by simp
  moreover from upload_file_calls [OF assms(1)] upload_file_calls [OF assms(2)] assms(3)
  have "key = new_id @ ''_'' @ filename item"
    by auto
  moreover from this have "filename item \<noteq> key"
    using key_differs_from_name [of "filename item" new_id] by simp
  ultimately show ?thesis by simp
qed

theorem delete_passes_filename_not_key_witness:
  "calls (snd (delete_file_by_id (sim_collaborators processing_fails) ''f1'' alice
                 two_files_server))
     = [Call_Files_get_file_by_id ''f1'', Call_Files_delete_file_by_id ''f1'',
        Call_Storage_delete_file ''passwd'']
   \<and> ''passwd'' \<noteq> ''f1_passwd''"
proof -
  have blob: "storage_upload_raises processing_fails = None"
    and ins: "insert_raises processing_fails = None"
    and proc: "process_raises processing_fails = Some (HTTPException 400 ''No pandoc was found'')"
    and reg: "\<not> registry_delete_fails processing_fails"
    by (simp_all add: fault_defs)
  note run =
    upload_file_process_failure
      [OF passwd_upload_filename sim_blob_write [OF blob] sim_insert [OF ins]
          sim_process_raises [OF proc]]
  have written:
    "Call_Storage_upload_file [104, 105] ''f1_passwd''
       \<in> set (drop (length (calls empty_server))
                (calls (snd (upload_file (sim_collaborators processing_fails) ''f1''
                               passwd_upload alice empty_server))))"
    unfolding run by (simp add: basename_passwd passwd_upload_def)
  have inserted:
    "Call_Files_insert_new_file ''alice'' passwd_form
       \<in> set (drop (length (calls empty_server))
                (calls (snd (upload_file (sim_collaborators processing_fails) ''f1''
                               passwd_upload alice empty_server))))"
    unfolding run passwd_form_eq by (simp add: alice_def)
  have same: "filename alice_file = form_filename passwd_form"
    by (simp add: alice_file_def passwd_form_def)
  show ?thesis
    using delete_passes_filename_not_key
            [OF written inserted same sim_lookup_alice_file alice_owns
                sim_registry_delete_ok [OF reg]]
    by (simp add: two_files_server_def alice_file_def)
qed

end
